theory Spec2Isabelle
  imports Main
begin

section \<open>The plugin file type of the loader (src/loader/filetypes/PluginFile.js)\<close>

text \<open>
  The file holds the \<open>PluginFile\<close> class (a constructor and \<open>onProcess\<close>) and the
  callback registered with the file types manager under the name \<open>plugin\<close>.
  JavaScript throws and mutates; here every function returns the exception it
  raised, if any, next to the state it left behind, because a throw does not
  undo the assignments made before it.
\<close>

subsection \<open>Values\<close>

text \<open>
  The JavaScript values that reach this file: \<open>undefined\<close>, \<open>null\<close>, strings,
  functions (identified by their source text, which is what string coercion of
  a function yields), plain objects (their own properties, the first binding of
  a name being the effective one) and arrays.
\<close>

datatype jsval =
    Undefined
  | Null
  | Str string
  | Func string
  | Obj "(string \<times> jsval) list"
  | Arr "jsval list"

text \<open>
  What a throw carries: the \<open>TypeError\<close> of the language (a property read on
  \<open>undefined\<close> or \<open>null\<close>, a call of something that is not callable), an exception
  raised by foreign code with its cause, and the error of the base constructor.
\<close>

datatype exn =
    TypeError
  | Thrown string
  | ConfigurationError

text \<open>\<open>typeof v === 'function'\<close>.\<close>

fun is_function :: "jsval \<Rightarrow> bool" where
  "is_function (Func _) = True"
| "is_function _ = False"

text \<open>\<open>!v\<close> on the values above: \<open>undefined\<close>, \<open>null\<close> and the empty string are falsy.\<close>

fun falsy :: "jsval \<Rightarrow> bool" where
  "falsy Undefined = True"
| "falsy Null = True"
| "falsy (Str s) = (s = [])"
| "falsy _ = False"

text \<open>
  String coercion, as performed by \<open>window[key]\<close> on a key that is not a string
  and by \<open>+\<close> with a string operand. An array is joined with commas, its
  \<open>undefined\<close> and \<open>null\<close> elements contributing the empty string.
\<close>

fun ToString :: "jsval \<Rightarrow> string"
  and join :: "jsval list \<Rightarrow> string"
  and join_elem :: "jsval \<Rightarrow> string" where
  "ToString Undefined = ''undefined''"
| "ToString Null = ''null''"
| "ToString (Str s) = s"
| "ToString (Func src) = src"
| "ToString (Obj fs) = ''[object Object]''"
| "ToString (Arr xs) = join xs"
| "join [] = []"
| "join [x] = join_elem x"
| "join (x # y # ys) = join_elem x @ '','' @ join (y # ys)"
| "join_elem Undefined = []"
| "join_elem Null = []"
| "join_elem (Str s) = s"
| "join_elem (Func src) = src"
| "join_elem (Obj fs) = ''[object Object]''"
| "join_elem (Arr xs) = join xs"

subsection \<open>The utilities the file requires\<close>

text \<open>
  Modelled from the spec: \<open>utils/object/IsPlainObject\<close> is not among the sources.
  The constructor accepts "a single configuration record" in place of the key;
  a value is such a record exactly when it is a plain object.
\<close>

fun IsPlainObject :: "jsval \<Rightarrow> bool" where
  "IsPlainObject (Obj _) = True"
| "IsPlainObject _ = False"

text \<open>
  Modelled from the spec: \<open>utils/object/GetFastValue\<close> is not among the sources.
  It reads a recognized field of a configuration record; an optional field that
  is absent (or \<open>undefined\<close>) yields the default, which is \<open>undefined\<close> where the
  caller passes none.
\<close>

definition GetFastValue :: "jsval \<Rightarrow> string \<Rightarrow> jsval \<Rightarrow> jsval" where
  "GetFastValue source name defaultValue =
     (case source of
        Obj fs \<Rightarrow>
          (case map_of fs name of
             None \<Rightarrow> defaultValue
           | Some v \<Rightarrow> if v = Undefined then defaultValue else v)
      | _ \<Rightarrow> defaultValue)"

subsection \<open>Files, the host and the loader\<close>

text \<open>The states of a file (\<open>CONST.FILE_*\<close>; the constants are not among the sources).\<close>

datatype file_state =
    FILE_PENDING
  | FILE_LOADING
  | FILE_PROCESSING
  | FILE_COMPLETE
  | FILE_ERRORED
  | FILE_DESTROYED

text \<open>The script element built by \<open>onProcess\<close>, with the four properties it assigns.\<close>

record script =
  el_language :: string
  el_type :: string
  el_defer :: bool
  el_text :: string

text \<open>The object literal the constructor hands to the base constructor.\<close>

record fileConfig =
  fc_type :: string
  fc_cache :: bool
  fc_extension :: jsval
  fc_responseType :: string
  fc_key :: jsval
  fc_url :: jsval
  fc_xhrSettings :: jsval

text \<open>
  A file object. \<open>xhrLoader\<close> is the response text of the request once the
  transfer has succeeded and \<open>None\<close> before; \<open>data\<close> is the script element once
  \<open>onProcess\<close> has created it.
\<close>

record file_object =
  key :: jsval
  url :: jsval
  xhrSettings :: jsval
  state :: file_state
  xhrLoader :: "string option"
  data :: "script option"

text \<open>The one argument ever passed to \<open>register\<close>: the plugin manager module.\<close>

datatype handle = PluginManager

text \<open>
  Everything the file reads or mutates outside the file object: the global object
  \<open>window\<close> (what each of its property names is bound to, and which of its
  properties are not writable, as \<open>undefined\<close>, \<open>NaN\<close>, \<open>Infinity\<close> and \<open>document\<close> are in
  a browser), the children appended to \<open>document.head\<close>, the trace of the calls of
  \<open>register\<close> (receiver and argument), the files passed to the loader's \<open>addFile\<close>,
  and the keys of the files whose completion the loader was told of.
\<close>

record world =
  window :: "string \<rightharpoonup> jsval"
  read_only :: "string set"
  document_head :: "script list"
  register_calls :: "(jsval \<times> handle) list"
  loader_list :: "file_object list"
  completed :: "jsval list"

text \<open>
  Foreign code is a parameter. \<open>run_script\<close> is what appending a script element
  with a given text does to the global object, and the exception that leaves
  \<open>appendChild\<close>, if any. \<open>register_of\<close> is what \<open>v.register(PluginManager)\<close> does
  for a value \<open>v\<close> other than \<open>undefined\<close> and \<open>null\<close>: \<open>None\<close> when \<open>v.register\<close> is
  not callable, otherwise whether the call returns or throws.
\<close>

datatype outcome = Returns | Throws string

record foreign =
  run_script :: "string \<Rightarrow> (string \<rightharpoonup> jsval) \<Rightarrow> exn option \<times> (string \<rightharpoonup> jsval)"
  register_of :: "jsval \<Rightarrow> outcome option"

text \<open>\<open>window[k]\<close> as an expression: an unbound name reads as \<open>undefined\<close>.\<close>

definition window_get :: "world \<Rightarrow> jsval \<Rightarrow> jsval" where
  "window_get W k = (case window W (ToString k) of None \<Rightarrow> Undefined | Some v \<Rightarrow> v)"

text \<open>
  \<open>window[k] = v\<close>. PluginFile.js is not strict code, so the assignment to a
  property that is not writable is dropped without an exception and leaves the
  property as it was; any other name is bound to the value.
\<close>

definition window_set :: "jsval \<Rightarrow> jsval \<Rightarrow> world \<Rightarrow> world" where
  "window_set k v W =
     (if ToString k \<in> read_only W then W
      else W\<lparr>window := (window W)(ToString k \<mapsto> v)\<rparr>)"

text \<open>
  \<open>v.register(PluginManager)\<close>. Reading a property of \<open>undefined\<close> or \<open>null\<close>
  throws, and so does calling what is not callable; a call that is made enters
  the trace whether it returns or throws.
\<close>

definition call_register :: "foreign \<Rightarrow> jsval \<Rightarrow> world \<Rightarrow> exn option \<times> world" where
  "call_register F v W =
     (if v = Undefined \<or> v = Null then (Some TypeError, W)
      else case register_of F v of
             None \<Rightarrow> (Some TypeError, W)
           | Some Returns \<Rightarrow>
               (None, W\<lparr>register_calls := register_calls W @ [(v, PluginManager)]\<rparr>)
           | Some (Throws c) \<Rightarrow>
               (Some (Thrown c), W\<lparr>register_calls := register_calls W @ [(v, PluginManager)]\<rparr>))"

text \<open>
  \<open>document.head.appendChild(el)\<close>: the element becomes a child of the head and
  its text is evaluated against the global object.
\<close>

definition appendChild :: "foreign \<Rightarrow> script \<Rightarrow> world \<Rightarrow> exn option \<times> world" where
  "appendChild F el W =
     (let (e, win) = run_script F (el_text el) (window W)
      in (e, W\<lparr>window := win, document_head := document_head W @ [el]\<rparr>))"

subsection \<open>The base class and the loader\<close>

text \<open>
  Modelled from the spec: the base constructor \<open>File\<close> (\<open>loader/File.js\<close>) is not
  among the sources. "Construction fails (reports a configuration error to the
  caller) if key is missing or empty"; the source locator, "if absent", is
  \<open>key + "." + extension\<close> (the documentation of the \<open>url\<close> parameter in
  PluginFile.js counts \<open>undefined\<close> and \<open>null\<close> as absent); a unit starts in
  \<open>Pending\<close>, except one built from a callable value, which "goes directly to
  \<open>Complete\<close>".
\<close>

definition File :: "fileConfig \<Rightarrow> exn + file_object" where
  "File cfg =
     (if falsy (fc_key cfg) then Inl ConfigurationError
      else Inr \<lparr>
        key = fc_key cfg,
        url = (if fc_url cfg = Undefined \<or> fc_url cfg = Null
               then Str (ToString (fc_key cfg) @ ''.'' @ ToString (fc_extension cfg))
               else fc_url cfg),
        xhrSettings = fc_xhrSettings cfg,
        state = (if is_function (fc_url cfg) then FILE_COMPLETE else FILE_PENDING),
        xhrLoader = None,
        data = None \<rparr>)"

text \<open>
  Modelled from the spec: \<open>File.onProcessComplete\<close> is not among the sources.
  "Transition \<open>Processing \<rightarrow> Complete\<close> and notify the driver of completion."
\<close>

definition onProcessComplete :: "file_object \<Rightarrow> world \<Rightarrow> file_object \<times> world" where
  "onProcessComplete this W =
     (this\<lparr>state := FILE_COMPLETE\<rparr>, W\<lparr>completed := completed W @ [key this]\<rparr>)"

text \<open>
  Modelled from the spec: the loader's \<open>addFile\<close> is not among the sources.
  "\<open>addFile(unit)\<close> -- enqueues a constructed LoadableUnit."
\<close>

definition addFile :: "file_object \<Rightarrow> world \<Rightarrow> world" where
  "addFile f W = W\<lparr>loader_list := loader_list W @ [f]\<rparr>"

subsection \<open>PluginFile\<close>

text \<open>
  Lines 51 to 61 of the constructor: the extension starts as \<open>'js'\<close>, and a plain
  object in the place of the key replaces all four of key, url, xhrSettings and
  extension. The result is (key, url, xhrSettings, extension).
\<close>

definition PluginFile_args :: "jsval \<Rightarrow> jsval \<Rightarrow> jsval \<Rightarrow> jsval \<times> jsval \<times> jsval \<times> jsval" where
  "PluginFile_args k u x =
     (let extension = Str ''js''
      in if IsPlainObject k
         then (let config = k
               in (GetFastValue config ''key'' Undefined,
                   GetFastValue config ''url'' Undefined,
                   GetFastValue config ''xhrSettings'' Undefined,
                   GetFastValue config ''extension'' extension))
         else (k, u, x, extension))"

text \<open>
  Lines 63 to 78: a url that is a function is assigned to \<open>window[key]\<close>, and
  \<open>register\<close> is called at once on what \<open>window[key]\<close> then reads as; then the file
  configuration is built. An exception of line 67 leaves the constructor before
  the configuration exists.
\<close>

definition PluginFile_config ::
  "foreign \<Rightarrow> jsval \<Rightarrow> jsval \<Rightarrow> jsval \<Rightarrow> world \<Rightarrow> (exn + fileConfig) \<times> world" where
  "PluginFile_config F k u x W =
     (let (k', u', x', extension) = PluginFile_args k u x;
          (e, W') = (if is_function u'
                     then (let W1 = window_set k' u' W
                           in call_register F (window_get W1 k') W1)
                     else (None, W))
      in case e of
           Some err \<Rightarrow> (Inl err, W')
         | None \<Rightarrow>
             (Inr \<lparr> fc_type = ''script'',
                    fc_cache = False,
                    fc_extension = extension,
                    fc_responseType = ''text'',
                    fc_key = k',
                    fc_url = u',
                    fc_xhrSettings = x' \<rparr>, W'))"

text \<open>The whole constructor: line 80 passes the configuration to the base constructor.\<close>

definition PluginFile ::
  "foreign \<Rightarrow> jsval \<Rightarrow> jsval \<Rightarrow> jsval \<Rightarrow> world \<Rightarrow> (exn + file_object) \<times> world" where
  "PluginFile F k u x W =
     (case PluginFile_config F k u x W of
        (Inl err, W') \<Rightarrow> (Inl err, W')
      | (Inr cfg, W') \<Rightarrow> (File cfg, W'))"

text \<open>
  \<open>onProcess\<close>, lines 90 to 106. The result is the exception that left the
  method, if any, the file object and the world as the method left them.
  Reading \<open>this.xhrLoader.responseText\<close> throws when there is no request object;
  by then the state is \<open>FILE_PROCESSING\<close> and \<open>this.data\<close> is an element without text.
\<close>

definition onProcess :: "foreign \<Rightarrow> file_object \<Rightarrow> world \<Rightarrow> exn option \<times> file_object \<times> world" where
  "onProcess F this W =
     (let this1 = this\<lparr>state := FILE_PROCESSING\<rparr>;
          el = \<lparr> el_language = ''javascript'', el_type = ''text/javascript'',
                 el_defer = False, el_text = [] \<rparr>
      in case xhrLoader this1 of
           None \<Rightarrow> (Some TypeError, this1\<lparr>data := Some el\<rparr>, W)
         | Some responseText \<Rightarrow>
             (let el' = el\<lparr>el_text := responseText\<rparr>;
                  this2 = this1\<lparr>data := Some el'\<rparr>
              in case appendChild F el' W of
                   (Some err, W1) \<Rightarrow> (Some err, this2, W1)
                 | (None, W1) \<Rightarrow>
                     (case call_register F (window_get W1 (key this2)) W1 of
                        (Some err, W2) \<Rightarrow> (Some err, this2, W2)
                      | (None, W2) \<Rightarrow>
                          (let (this3, W3) = onProcessComplete this2 W2
                           in (None, this3, W3)))))"

subsection \<open>The \<open>plugin\<close> method of the loader\<close>

text \<open>
  The loop of lines 171 to 175 over the elements of the array, from index 0: each
  element alone is the argument of the constructor, and the file is passed to
  \<open>addFile\<close>. An exception of the constructor ends the loop.
\<close>

fun plugin_loop :: "foreign \<Rightarrow> jsval list \<Rightarrow> world \<Rightarrow> exn option \<times> world" where
  "plugin_loop F [] W = (None, W)"
| "plugin_loop F (k # ks) W =
     (case PluginFile F k Undefined Undefined W of
        (Inl err, W') \<Rightarrow> (Some err, W')
      | (Inr f, W') \<Rightarrow> plugin_loop F ks (addFile f W'))"

text \<open>
  The callback registered under \<open>'plugin'\<close>, lines 167 to 183: an array takes the
  loop, anything else is one call of the constructor with all three arguments.
\<close>

definition plugin :: "foreign \<Rightarrow> jsval \<Rightarrow> jsval \<Rightarrow> jsval \<Rightarrow> world \<Rightarrow> exn option \<times> world" where
  "plugin F k u x W =
     (case k of
        Arr ks \<Rightarrow> plugin_loop F ks W
      | _ \<Rightarrow>
          (case PluginFile F k u x W of
             (Inl err, W') \<Rightarrow> (Some err, W')
           | (Inr f, W') \<Rightarrow> (None, addFile f W')))"

subsection \<open>Concrete hosts, files and worlds\<close>

text \<open>The inputs at which the theorems below are evaluated.\<close>

text \<open>
  A world in which nothing is bound and nothing has happened. Its one property
  that is not writable is \<open>undefined\<close>, which reads as \<open>undefined\<close>; the other such
  properties of a browser hold numbers and host objects, which are not among the
  values above, and no example below touches them.
\<close>

definition empty_world :: world where
  "empty_world = \<lparr> window = Map.empty, read_only = {''undefined''}, document_head = [],
                   register_calls = [], loader_list = [], completed = [] \<rparr>"

definition alien_plugin :: jsval where
  "alien_plugin = Func ''function AlienPlugin () {}''"

text \<open>A host whose scripts bind \<open>window.alien\<close> and whose \<open>register\<close> functions return.\<close>

definition binding_host :: foreign where
  "binding_host = \<lparr> run_script = (\<lambda>rt win. (None, win(''alien'' \<mapsto> alien_plugin))),
                     register_of = (\<lambda>v. Some Returns) \<rparr>"

text \<open>The same host, except that every \<open>register\<close> throws.\<close>

definition throwing_host :: foreign where
  "throwing_host = \<lparr> run_script = (\<lambda>rt win. (None, win(''alien'' \<mapsto> alien_plugin))),
                      register_of = (\<lambda>v. Some (Throws ''boom'')) \<rparr>"

text \<open>A file whose transfer has succeeded.\<close>

definition loaded_file :: file_object where
  "loaded_file = \<lparr> key = Str ''alien'', url = Str ''alien.js'', xhrSettings = Undefined,
                   state = FILE_LOADING, xhrLoader = Some ''window.alien = AlienPlugin'',
                   data = None \<rparr>"

text \<open>A host whose scripts throw when they are evaluated.\<close>

definition failing_script_host :: foreign where
  "failing_script_host = \<lparr> run_script = (\<lambda>rt win. (Some (Thrown ''SyntaxError''), win)),
                            register_of = (\<lambda>v. Some Returns) \<rparr>"

text \<open>A host in which no value has a callable \<open>register\<close>.\<close>

definition no_register_host :: foreign where
  "no_register_host = \<lparr> run_script = (\<lambda>rt win. (None, win)),
                         register_of = (\<lambda>v. None) \<rparr>"

text \<open>A world in which \<open>window.alien\<close> is already bound to an unrelated value.\<close>

definition taken_world :: world where
  "taken_world = empty_world\<lparr>window := [''alien'' \<mapsto> Str ''taken'']\<rparr>"

text \<open>The file and the world that processing the loaded file once leaves behind.\<close>

definition processed_file :: file_object where
  "processed_file = fst (snd (onProcess binding_host loaded_file empty_world))"

definition processed_world :: world where
  "processed_world = snd (snd (onProcess binding_host loaded_file empty_world))"

section \<open>Properties\<close>

subsection \<open>Auxiliary facts\<close>


lemma window_set_read_only:
  "ToString k \<in> read_only W \<Longrightarrow> window_set k v W = W"
  by (simp add: window_set_def)

lemma window_set_fields:
  "read_only (window_set k v W) = read_only W"
  "loader_list (window_set k v W) = loader_list W"
  "register_calls (window_set k v W) = register_calls W"
  "n \<in> read_only W \<Longrightarrow> window (window_set k v W) n = window W n"
  by (auto simp add: window_set_def)

lemma call_register_outcome:
  "fst (call_register F v W) =
     (if v = Undefined \<or> v = Null then Some TypeError
      else case register_of F v of None \<Rightarrow> Some TypeError | Some Returns \<Rightarrow> None
           | Some (Throws c) \<Rightarrow> Some (Thrown c))"
  by (simp add: call_register_def split: option.splits outcome.splits)

lemma call_register_any_world:
  "fst (call_register F v W) = fst (call_register F v W0)"
  by (simp add: call_register_outcome)


lemma call_register_Some:
  "call_register F v W = (Some e, W') \<Longrightarrow>
     completed W' = completed W \<and> loader_list W' = loader_list W \<and> window W' = window W"
  by (auto simp add: call_register_def split: if_splits option.splits outcome.splits)

lemma call_register_fields:
  "read_only (snd (call_register F v W)) = read_only W"
  "loader_list (snd (call_register F v W)) = loader_list W"
  "window (snd (call_register F v W)) = window W"
  by (simp_all add: call_register_def split: option.splits outcome.splits)

lemma onProcess_no_request:
  "xhrLoader this = None \<Longrightarrow>
     onProcess F this W =
       (Some TypeError,
        this\<lparr>state := FILE_PROCESSING,
             data := Some \<lparr> el_language = ''javascript'', el_type = ''text/javascript'',
                              el_defer = False, el_text = [] \<rparr>\<rparr>, W)"
  by (simp add: onProcess_def Let_def)

lemma onProcess_request:
  "xhrLoader this = Some rt \<Longrightarrow>
     onProcess F this W =
       (case appendChild F \<lparr> el_language = ''javascript'', el_type = ''text/javascript'',
                              el_defer = False, el_text = rt \<rparr> W of
          (Some err, W1) \<Rightarrow>
            (Some err,
             this\<lparr>state := FILE_PROCESSING,
                  data := Some \<lparr> el_language = ''javascript'', el_type = ''text/javascript'',
                                   el_defer = False, el_text = rt \<rparr>\<rparr>, W1)
        | (None, W1) \<Rightarrow>
            (case call_register F (window_get W1 (key this)) W1 of
               (Some err, W2) \<Rightarrow>
                 (Some err,
                  this\<lparr>state := FILE_PROCESSING,
                       data := Some \<lparr> el_language = ''javascript'', el_type = ''text/javascript'',
                                        el_defer = False, el_text = rt \<rparr>\<rparr>, W2)
             | (None, W2) \<Rightarrow>
                 (None,
                  this\<lparr>state := FILE_COMPLETE,
                       data := Some \<lparr> el_language = ''javascript'', el_type = ''text/javascript'',
                                        el_defer = False, el_text = rt \<rparr>\<rparr>,
                  W2\<lparr>completed := completed W2 @ [key this]\<rparr>)))"
  by (simp add: onProcess_def Let_def onProcessComplete_def split: prod.splits option.splits)

lemma PluginFile_config_unfold:
  assumes "PluginFile_args k u x = (k', u', x', ext)"
  shows "PluginFile_config F k u x W =
     (if is_function u'
      then (case call_register F (window_get (window_set k' u' W) k') (window_set k' u' W) of
              (Some err, W') \<Rightarrow> (Inl err, W')
            | (None, W') \<Rightarrow>
                (Inr \<lparr> fc_type = ''script'', fc_cache = False, fc_extension = ext,
                       fc_responseType = ''text'', fc_key = k', fc_url = u',
                       fc_xhrSettings = x' \<rparr>, W'))
      else (Inr \<lparr> fc_type = ''script'', fc_cache = False, fc_extension = ext,
                  fc_responseType = ''text'', fc_key = k', fc_url = u',
                  fc_xhrSettings = x' \<rparr>, W))"
  using assms
  by (simp add: PluginFile_config_def Let_def split: prod.splits option.splits)

lemma PluginFile_config_fields:
  "read_only (snd (PluginFile_config F k u x W)) = read_only W"
  "loader_list (snd (PluginFile_config F k u x W)) = loader_list W"
  "n \<in> read_only W \<Longrightarrow> window (snd (PluginFile_config F k u x W)) n = window W n"
proof -
  obtain k' u' x' ext where a: "PluginFile_args k u x = (k', u', x', ext)"
    by (cases "PluginFile_args k u x")
  let ?r = "call_register F (window_get (window_set k' u' W) k') (window_set k' u' W)"
  have s: "snd (PluginFile_config F k u x W) = (if is_function u' then snd ?r else W)"
    by (simp add: PluginFile_config_unfold [OF a] split: prod.splits option.splits)
  show "read_only (snd (PluginFile_config F k u x W)) = read_only W"
    by (simp add: s call_register_fields window_set_fields)
  show "loader_list (snd (PluginFile_config F k u x W)) = loader_list W"
    by (simp add: s call_register_fields window_set_fields)
  show "n \<in> read_only W \<Longrightarrow> window (snd (PluginFile_config F k u x W)) n = window W n"
    by (simp add: s call_register_fields window_set_fields)
qed

lemma snd_PluginFile:
  "snd (PluginFile F k u x W) = snd (PluginFile_config F k u x W)"
  by (simp add: PluginFile_def split: prod.splits sum.splits)

lemma PluginFile_fields:
  "read_only (snd (PluginFile F k u x W)) = read_only W"
  "loader_list (snd (PluginFile F k u x W)) = loader_list W"
  "n \<in> read_only W \<Longrightarrow> window (snd (PluginFile F k u x W)) n = window W n"
  by (simp_all add: snd_PluginFile PluginFile_config_fields)

lemma PluginFile_same_fixed:
  assumes "read_only W = read_only W0"
    and "\<forall>n \<in> read_only W0. window W n = window W0 n"
  shows "fst (PluginFile F k u x W) = fst (PluginFile F k u x W0)"
proof -
  obtain k' u' x' ext where a: "PluginFile_args k u x = (k', u', x', ext)"
    by (cases "PluginFile_args k u x")
  have v: "window_get (window_set k' u' W) k' = window_get (window_set k' u' W0) k'"
    using assms by (simp add: window_get_def window_set_def)
  have "fst (call_register F (window_get (window_set k' u' W) k') (window_set k' u' W)) =
        fst (call_register F (window_get (window_set k' u' W0) k') (window_set k' u' W0))"
    unfolding v by (rule call_register_any_world)
  then show ?thesis
    by (auto simp add: PluginFile_def PluginFile_config_unfold [OF a]
        split: prod.splits option.splits)
qed

lemma addFile_fields:
  "loader_list (addFile f W) = loader_list W @ [f]"
  "read_only (addFile f W) = read_only W"
  "window (addFile f W) = window W"
  by (simp_all add: addFile_def)

lemma plugin_loop_snoc:
  "plugin_loop F (ks @ [k]) W =
     (case plugin_loop F ks W of
        (Some e, W1) \<Rightarrow> (Some e, W1)
      | (None, W1) \<Rightarrow>
          (case PluginFile F k Undefined Undefined W1 of
             (Inl err, W2) \<Rightarrow> (Some err, W2)
           | (Inr f, W2) \<Rightarrow> (None, addFile f W2)))"
  by (induction ks arbitrary: W) (auto split: prod.splits sum.splits option.splits)

lemma plugin_loop_all:
  assumes "\<forall>k \<in> set ks. \<exists>f. fst (PluginFile F k Undefined Undefined W0) = Inr f"
    and "read_only W = read_only W0"
    and "\<forall>n \<in> read_only W0. window W n = window W0 n"
  shows "\<exists>fs W'. plugin_loop F ks W = (None, W') \<and>
             loader_list W' = loader_list W @ fs \<and>
             map (\<lambda>k. fst (PluginFile F k Undefined Undefined W0)) ks = map Inr fs \<and>
             read_only W' = read_only W0 \<and> (\<forall>n \<in> read_only W0. window W' n = window W0 n)"
  using assms
proof (induction ks arbitrary: W)
  case Nil
  then show ?case by simp
next
  case (Cons k ks)
  from Cons.prems(1) obtain f where f0: "fst (PluginFile F k Undefined Undefined W0) = Inr f"
    by auto
  then have "fst (PluginFile F k Undefined Undefined W) = Inr f"
    using PluginFile_same_fixed [OF Cons.prems(2,3), of F k Undefined Undefined] by simp
  then obtain W1 where step: "PluginFile F k Undefined Undefined W = (Inr f, W1)"
    by (cases "PluginFile F k Undefined Undefined W") auto
  then have W1: "W1 = snd (PluginFile F k Undefined Undefined W)" by simp
  have ll: "loader_list W1 = loader_list W" and ro: "read_only W1 = read_only W0"
    and wi: "\<forall>n \<in> read_only W0. window W1 n = window W0 n"
    using Cons.prems(2,3) by (simp_all add: W1 PluginFile_fields)
  from Cons.prems(1) have all: "\<forall>k \<in> set ks. \<exists>f. fst (PluginFile F k Undefined Undefined W0) = Inr f"
    by simp
  have ro': "read_only (addFile f W1) = read_only W0"
    and wi': "\<forall>n \<in> read_only W0. window (addFile f W1) n = window W0 n"
    using ro wi by (simp_all add: addFile_fields)
  from Cons.IH [OF all ro' wi'] obtain fs W' where
    rest: "plugin_loop F ks (addFile f W1) = (None, W')"
      "loader_list W' = loader_list (addFile f W1) @ fs"
      "map (\<lambda>k. fst (PluginFile F k Undefined Undefined W0)) ks = map Inr fs"
      "read_only W' = read_only W0" "\<forall>n \<in> read_only W0. window W' n = window W0 n"
    by blast
  from step rest ll f0 have "plugin_loop F (k # ks) W = (None, W') \<and>
      loader_list W' = loader_list W @ (f # fs) \<and>
      map (\<lambda>k. fst (PluginFile F k Undefined Undefined W0)) (k # ks) = map Inr (f # fs) \<and>
      read_only W' = read_only W0 \<and> (\<forall>n \<in> read_only W0. window W' n = window W0 n)"
    by (simp add: addFile_fields)
  then show ?case by blast
qed

lemma PluginFile_args_falsy_not_Arr:
  "PluginFile_args k u x = (k', u', x', ext) \<Longrightarrow> falsy k' \<Longrightarrow> plugin F k u x W =
     (case PluginFile F k u x W of
        (Inl err, W') \<Rightarrow> (Some err, W')
      | (Inr f, W') \<Rightarrow> (None, addFile f W'))"
  by (cases k) (auto simp add: plugin_def PluginFile_args_def)

lemma File_falsy: "falsy (fc_key cfg) \<Longrightarrow> File cfg = Inl ConfigurationError"
  by (simp add: File_def)

lemma all_Inr_map:
  "\<forall>k \<in> set ks. \<exists>f. g k = Inr f \<Longrightarrow> \<exists>fs. map g ks = map Inr fs"
proof (induction ks)
  case Nil
  then show ?case by simp
next
  case (Cons k ks)
  then obtain f fs where "g k = Inr f" "map g ks = map Inr fs" by auto
  then have "map g (k # ks) = map Inr (f # fs)" by simp
  then show ?case by blast
qed

subsection \<open>Processing a transferred file\<close>



text \<open>
  C2, as stated, fails: \<open>onProcess\<close> has no handler around the script or the call of
  \<open>register\<close>. Where \<open>register\<close> throws, the exception leaves \<open>onProcess\<close> and the file
  stays in \<open>FILE_PROCESSING\<close>; it is not in \<open>FILE_ERRORED\<close>.
\<close>

theorem onProcess_throw_counterexample:
  "fst (onProcess throwing_host loaded_file empty_world) = Some (Thrown ''boom'') \<and>
   state (fst (snd (onProcess throwing_host loaded_file empty_world))) = FILE_PROCESSING \<and>
   state (fst (snd (onProcess throwing_host loaded_file empty_world))) \<noteq> FILE_ERRORED"
  by (simp add: onProcess_def Let_def appendChild_def call_register_def window_get_def
      throwing_host_def loaded_file_def empty_world_def alien_plugin_def)

text \<open>
  C2, amended. Let the transfer have succeeded. If evaluating the script throws,
  that exception leaves \<open>onProcess\<close>. If it does not throw and \<open>register\<close> of the value
  bound to the key throws, that exception leaves \<open>onProcess\<close>, after the one call.
  If nothing, \<open>undefined\<close> or \<open>null\<close> is bound to the key, or a value whose \<open>register\<close>
  is not callable, a \<open>TypeError\<close> leaves \<open>onProcess\<close> and no call is made. In each
  case the file is left in \<open>FILE_PROCESSING\<close> with the script element as its data,
  and the world is as the steps before the throw left it. And whenever an
  exception leaves \<open>onProcess\<close>, for these or any other reason, the file is in
  \<open>FILE_PROCESSING\<close>, so neither errored nor complete, and the loader has been told
  of no completion.
\<close>

theorem onProcess_throw:
  "(xhrLoader this = Some rt \<and> run_script F rt (window W) = (Some e, win) \<longrightarrow>
      onProcess F this W =
        (Some e,
         this\<lparr>state := FILE_PROCESSING,
              data := Some \<lparr> el_language = ''javascript'', el_type = ''text/javascript'',
                               el_defer = False, el_text = rt \<rparr>\<rparr>,
         W\<lparr>window := win,
           document_head := document_head W @
             [\<lparr> el_language = ''javascript'', el_type = ''text/javascript'',
                el_defer = False, el_text = rt \<rparr>]\<rparr>)) \<and>
   (xhrLoader this = Some rt \<and> run_script F rt (window W) = (None, win) \<and>
    win (ToString (key this)) = Some v \<and> v \<noteq> Undefined \<and> v \<noteq> Null \<and>
    register_of F v = Some (Throws c) \<longrightarrow>
      onProcess F this W =
        (Some (Thrown c),
         this\<lparr>state := FILE_PROCESSING,
              data := Some \<lparr> el_language = ''javascript'', el_type = ''text/javascript'',
                               el_defer = False, el_text = rt \<rparr>\<rparr>,
         W\<lparr>window := win,
           document_head := document_head W @
             [\<lparr> el_language = ''javascript'', el_type = ''text/javascript'',
                el_defer = False, el_text = rt \<rparr>],
           register_calls := register_calls W @ [(v, PluginManager)]\<rparr>)) \<and>
   (xhrLoader this = Some rt \<and> run_script F rt (window W) = (None, win) \<and>
    (win (ToString (key this)) = None \<or> win (ToString (key this)) = Some Undefined \<or>
     win (ToString (key this)) = Some Null \<or>
     (win (ToString (key this)) = Some v \<and> register_of F v = None)) \<longrightarrow>
      onProcess F this W =
        (Some TypeError,
         this\<lparr>state := FILE_PROCESSING,
              data := Some \<lparr> el_language = ''javascript'', el_type = ''text/javascript'',
                               el_defer = False, el_text = rt \<rparr>\<rparr>,
         W\<lparr>window := win,
           document_head := document_head W @
             [\<lparr> el_language = ''javascript'', el_type = ''text/javascript'',
                el_defer = False, el_text = rt \<rparr>]\<rparr>)) \<and>
   (onProcess F this W = (Some e, this', W') \<longrightarrow>
      state this' = FILE_PROCESSING \<and> completed W' = completed W)"
proof (intro conjI impI)
  assume "xhrLoader this = Some rt \<and> run_script F rt (window W) = (Some e, win)"
  then show "onProcess F this W =
        (Some e,
         this\<lparr>state := FILE_PROCESSING,
              data := Some \<lparr> el_language = ''javascript'', el_type = ''text/javascript'',
                               el_defer = False, el_text = rt \<rparr>\<rparr>,
         W\<lparr>window := win,
           document_head := document_head W @
             [\<lparr> el_language = ''javascript'', el_type = ''text/javascript'',
                el_defer = False, el_text = rt \<rparr>]\<rparr>)"
    by (simp add: onProcess_request appendChild_def)
next
  assume "xhrLoader this = Some rt \<and> run_script F rt (window W) = (None, win) \<and>
    win (ToString (key this)) = Some v \<and> v \<noteq> Undefined \<and> v \<noteq> Null \<and>
    register_of F v = Some (Throws c)"
  then show "onProcess F this W =
        (Some (Thrown c),
         this\<lparr>state := FILE_PROCESSING,
              data := Some \<lparr> el_language = ''javascript'', el_type = ''text/javascript'',
                               el_defer = False, el_text = rt \<rparr>\<rparr>,
         W\<lparr>window := win,
           document_head := document_head W @
             [\<lparr> el_language = ''javascript'', el_type = ''text/javascript'',
                el_defer = False, el_text = rt \<rparr>],
           register_calls := register_calls W @ [(v, PluginManager)]\<rparr>)"
    by (simp add: onProcess_request appendChild_def call_register_def window_get_def)
next
  assume "xhrLoader this = Some rt \<and> run_script F rt (window W) = (None, win) \<and>
    (win (ToString (key this)) = None \<or> win (ToString (key this)) = Some Undefined \<or>
     win (ToString (key this)) = Some Null \<or>
     (win (ToString (key this)) = Some v \<and> register_of F v = None))"
  then show "onProcess F this W =
        (Some TypeError,
         this\<lparr>state := FILE_PROCESSING,
              data := Some \<lparr> el_language = ''javascript'', el_type = ''text/javascript'',
                               el_defer = False, el_text = rt \<rparr>\<rparr>,
         W\<lparr>window := win,
           document_head := document_head W @
             [\<lparr> el_language = ''javascript'', el_type = ''text/javascript'',
                el_defer = False, el_text = rt \<rparr>]\<rparr>)"
    by (auto simp add: onProcess_request appendChild_def call_register_def window_get_def)
next
  assume out: "onProcess F this W = (Some e, this', W')"
  show "state this' = FILE_PROCESSING"
  proof (cases "xhrLoader this")
    case None
    with out show ?thesis by (auto simp add: onProcess_no_request)
  next
    case (Some rt')
    with out show ?thesis
      by (auto simp add: onProcess_request split: prod.splits option.splits)
  qed
  show "completed W' = completed W"
  proof (cases "xhrLoader this")
    case None
    with out show ?thesis by (auto simp add: onProcess_no_request)
  next
    case (Some rt')
    with out show ?thesis
      by (auto simp add: onProcess_request appendChild_def
          split: prod.splits option.splits dest: call_register_Some)
  qed
qed

text \<open>
  The amended statement at three hosts: one whose script throws, one whose
  \<open>register\<close> throws, and one that binds nothing to the key.
\<close>

theorem onProcess_throw_witness:
  "fst (onProcess failing_script_host loaded_file empty_world) = Some (Thrown ''SyntaxError'') \<and>
   state (fst (snd (onProcess failing_script_host loaded_file empty_world))) = FILE_PROCESSING \<and>
   completed (snd (snd (onProcess failing_script_host loaded_file empty_world))) = [] \<and>
   fst (onProcess throwing_host loaded_file empty_world) = Some (Thrown ''boom'') \<and>
   state (fst (snd (onProcess throwing_host loaded_file empty_world))) = FILE_PROCESSING \<and>
   register_calls (snd (snd (onProcess throwing_host loaded_file empty_world))) =
     [(alien_plugin, PluginManager)] \<and>
   completed (snd (snd (onProcess throwing_host loaded_file empty_world))) = [] \<and>
   fst (onProcess no_register_host loaded_file empty_world) = Some TypeError \<and>
   state (fst (snd (onProcess no_register_host loaded_file empty_world))) = FILE_PROCESSING \<and>
   register_calls (snd (snd (onProcess no_register_host loaded_file empty_world))) = [] \<and>
   completed (snd (snd (onProcess no_register_host loaded_file empty_world))) = []"
proof -
  let ?rt = "''window.alien = AlienPlugin''"
  have x: "xhrLoader loaded_file = Some ?rt" by (simp add: loaded_file_def)
  have k: "ToString (key loaded_file) = ''alien''" by (simp add: loaded_file_def)
  have w: "window empty_world = Map.empty" "completed empty_world = []"
    "register_calls empty_world = []"
    by (simp_all add: empty_world_def)
  have a: "run_script failing_script_host ?rt (window empty_world) =
      (Some (Thrown ''SyntaxError''), Map.empty)"
    by (simp add: failing_script_host_def w)
  have b: "run_script throwing_host ?rt (window empty_world) =
      (None, [''alien'' \<mapsto> alien_plugin])"
    "register_of throwing_host alien_plugin = Some (Throws ''boom'')"
    "alien_plugin \<noteq> Undefined" "alien_plugin \<noteq> Null"
    by (simp_all add: throwing_host_def w alien_plugin_def)
  have c: "run_script no_register_host ?rt (window empty_world) = (None, Map.empty)"
    by (simp add: no_register_host_def w)
  from onProcess_throw [of loaded_file ?rt failing_script_host empty_world
      "Thrown ''SyntaxError''" Map.empty] x a
  have A: "onProcess failing_script_host loaded_file empty_world =
      (Some (Thrown ''SyntaxError''),
       loaded_file\<lparr>state := FILE_PROCESSING,
              data := Some \<lparr> el_language = ''javascript'', el_type = ''text/javascript'',
                               el_defer = False, el_text = ?rt \<rparr>\<rparr>,
       empty_world\<lparr>window := Map.empty,
           document_head := document_head empty_world @
             [\<lparr> el_language = ''javascript'', el_type = ''text/javascript'',
                el_defer = False, el_text = ?rt \<rparr>]\<rparr>)"
    by blast
  from onProcess_throw [of loaded_file ?rt throwing_host empty_world _
      "[''alien'' \<mapsto> alien_plugin]" alien_plugin "''boom''"] x b k
  have B: "onProcess throwing_host loaded_file empty_world =
      (Some (Thrown ''boom''),
       loaded_file\<lparr>state := FILE_PROCESSING,
              data := Some \<lparr> el_language = ''javascript'', el_type = ''text/javascript'',
                               el_defer = False, el_text = ?rt \<rparr>\<rparr>,
       empty_world\<lparr>window := [''alien'' \<mapsto> alien_plugin],
           document_head := document_head empty_world @
             [\<lparr> el_language = ''javascript'', el_type = ''text/javascript'',
                el_defer = False, el_text = ?rt \<rparr>],
           register_calls := register_calls empty_world @ [(alien_plugin, PluginManager)]\<rparr>)"
    by simp
  from onProcess_throw [of loaded_file ?rt no_register_host empty_world _ Map.empty] x c k
  have C: "onProcess no_register_host loaded_file empty_world =
      (Some TypeError,
       loaded_file\<lparr>state := FILE_PROCESSING,
              data := Some \<lparr> el_language = ''javascript'', el_type = ''text/javascript'',
                               el_defer = False, el_text = ?rt \<rparr>\<rparr>,
       empty_world\<lparr>window := Map.empty,
           document_head := document_head empty_world @
             [\<lparr> el_language = ''javascript'', el_type = ''text/javascript'',
                el_defer = False, el_text = ?rt \<rparr>]\<rparr>)"
    by simp
  show ?thesis by (simp add: A B C w)
qed

subsection \<open>Processing a file again\<close>

text \<open>
  C3, as stated, fails: \<open>onProcess\<close> does not look at the state of the file. Called on
  the file it has just completed, it appends the script again and calls
  \<open>register\<close> a second time; called on a file in \<open>FILE_ERRORED\<close>, it calls \<open>register\<close> too.
\<close>

theorem onProcess_twice_counterexample:
  "state (fst (snd (onProcess binding_host loaded_file empty_world))) = FILE_COMPLETE \<and>
   register_calls (snd (snd (onProcess binding_host
      (fst (snd (onProcess binding_host loaded_file empty_world)))
      (snd (snd (onProcess binding_host loaded_file empty_world)))))) =
     [(alien_plugin, PluginManager), (alien_plugin, PluginManager)] \<and>
   register_calls (snd (snd (onProcess binding_host
      (loaded_file\<lparr>state := FILE_ERRORED\<rparr>) empty_world))) = [(alien_plugin, PluginManager)]"
  by (simp add: onProcess_def Let_def appendChild_def call_register_def window_get_def
      onProcessComplete_def binding_host_def loaded_file_def empty_world_def alien_plugin_def)

text \<open>
  C3, amended. \<open>onProcess\<close> has no guard against a second call. On a file that is
  already in \<open>FILE_COMPLETE\<close> or \<open>FILE_ERRORED\<close>, whatever its data and whatever calls
  of \<open>register\<close> have been made before, it appends a script element again,
  evaluates it, calls \<open>register\<close> once more on the value bound to the key and
  completes the file, provided that the request holds a response text and
  neither step throws; it does exactly what it does on the same file in the state
  and with the data of a file never processed.
\<close>

theorem onProcess_again:
  assumes "state this = FILE_COMPLETE \<or> state this = FILE_ERRORED"
    and "xhrLoader this = Some rt"
    and "run_script F rt (window W) = (None, win)"
    and "win (ToString (key this)) = Some v"
    and "v \<noteq> Undefined" and "v \<noteq> Null"
    and "register_of F v = Some Returns"
  shows "onProcess F this W =
           (None,
            this\<lparr>state := FILE_COMPLETE,
                 data := Some \<lparr> el_language = ''javascript'', el_type = ''text/javascript'',
                                  el_defer = False, el_text = rt \<rparr>\<rparr>,
            W\<lparr>window := win,
              document_head := document_head W @
                [\<lparr> el_language = ''javascript'', el_type = ''text/javascript'',
                   el_defer = False, el_text = rt \<rparr>],
              register_calls := register_calls W @ [(v, PluginManager)],
              completed := completed W @ [key this]\<rparr>) \<and>
         onProcess F this W = onProcess F (this\<lparr>state := FILE_LOADING, data := None\<rparr>) W"
proof -
  from assms(2-7) have "onProcess F this W =
           (None,
            this\<lparr>state := FILE_COMPLETE,
                 data := Some \<lparr> el_language = ''javascript'', el_type = ''text/javascript'',
                                  el_defer = False, el_text = rt \<rparr>\<rparr>,
            W\<lparr>window := win,
              document_head := document_head W @
                [\<lparr> el_language = ''javascript'', el_type = ''text/javascript'',
                   el_defer = False, el_text = rt \<rparr>],
              register_calls := register_calls W @ [(v, PluginManager)],
              completed := completed W @ [key this]\<rparr>)"
    by (simp add: onProcess_request appendChild_def call_register_def window_get_def)
  moreover from assms(2-7) have "onProcess F (this\<lparr>state := FILE_LOADING, data := None\<rparr>) W =
           (None,
            this\<lparr>state := FILE_COMPLETE,
                 data := Some \<lparr> el_language = ''javascript'', el_type = ''text/javascript'',
                                  el_defer = False, el_text = rt \<rparr>\<rparr>,
            W\<lparr>window := win,
              document_head := document_head W @
                [\<lparr> el_language = ''javascript'', el_type = ''text/javascript'',
                   el_defer = False, el_text = rt \<rparr>],
              register_calls := register_calls W @ [(v, PluginManager)],
              completed := completed W @ [key this]\<rparr>)"
    by (simp add: onProcess_request appendChild_def call_register_def window_get_def)
  ultimately show ?thesis by simp
qed

text \<open>
  The amended statement at the file and the world left by processing the loaded
  file once: the second call returns, and \<open>register\<close> has then been called twice.
\<close>

theorem onProcess_again_witness:
  "state processed_file = FILE_COMPLETE \<and>
   data processed_file = Some \<lparr> el_language = ''javascript'', el_type = ''text/javascript'',
                                 el_defer = False, el_text = ''window.alien = AlienPlugin'' \<rparr> \<and>
   register_calls processed_world = [(alien_plugin, PluginManager)] \<and>
   fst (onProcess binding_host processed_file processed_world) = None \<and>
   register_calls (snd (snd (onProcess binding_host processed_file processed_world))) =
     [(alien_plugin, PluginManager), (alien_plugin, PluginManager)] \<and>
   length (document_head (snd (snd (onProcess binding_host processed_file processed_world)))) = 2"
proof -
  let ?rt = "''window.alien = AlienPlugin''"
  have pf: "processed_file = loaded_file\<lparr>state := FILE_COMPLETE,
      data := Some \<lparr> el_language = ''javascript'', el_type = ''text/javascript'',
                       el_defer = False, el_text = ?rt \<rparr>\<rparr>"
    by (simp add: processed_file_def onProcess_def Let_def appendChild_def call_register_def
        window_get_def onProcessComplete_def binding_host_def loaded_file_def empty_world_def
        alien_plugin_def)
  have pw: "register_calls processed_world = [(alien_plugin, PluginManager)]"
    "length (document_head processed_world) = 1"
    by (simp_all add: processed_world_def onProcess_def Let_def appendChild_def
        call_register_def window_get_def onProcessComplete_def binding_host_def loaded_file_def
        empty_world_def alien_plugin_def)
  have s: "state processed_file = FILE_COMPLETE \<or> state processed_file = FILE_ERRORED"
    by (simp add: pf)
  have x: "xhrLoader processed_file = Some ?rt" by (simp add: pf loaded_file_def)
  have r: "run_script binding_host ?rt (window processed_world) =
      (None, (window processed_world)(''alien'' \<mapsto> alien_plugin))"
    by (simp add: binding_host_def)
  have k: "((window processed_world)(''alien'' \<mapsto> alien_plugin)) (ToString (key processed_file))
      = Some alien_plugin"
    by (simp add: pf loaded_file_def)
  have n: "alien_plugin \<noteq> Undefined" "alien_plugin \<noteq> Null"
    "register_of binding_host alien_plugin = Some Returns"
    by (simp_all add: alien_plugin_def binding_host_def)
  have st: "state processed_file = FILE_COMPLETE"
    "data processed_file = Some \<lparr> el_language = ''javascript'', el_type = ''text/javascript'',
                                 el_defer = False, el_text = ?rt \<rparr>"
    by (simp_all add: pf)
  from onProcess_again [OF s x r k n]
  have res: "onProcess binding_host processed_file processed_world =
      (None,
       processed_file\<lparr>state := FILE_COMPLETE,
            data := Some \<lparr> el_language = ''javascript'', el_type = ''text/javascript'',
                             el_defer = False, el_text = ?rt \<rparr>\<rparr>,
       processed_world\<lparr>window := (window processed_world)(''alien'' \<mapsto> alien_plugin),
         document_head := document_head processed_world @
           [\<lparr> el_language = ''javascript'', el_type = ''text/javascript'',
              el_defer = False, el_text = ?rt \<rparr>],
         register_calls := register_calls processed_world @ [(alien_plugin, PluginManager)],
         completed := completed processed_world @ [key processed_file]\<rparr>)"
    by (rule conjunct1)
  show ?thesis by (simp add: res pw st)
qed

subsection \<open>Construction\<close>

text \<open>
  C4, as stated, fails: the constructor registers a callable url before the base
  constructor sees the key. With no key and a function as the url, line 67 throws
  a \<open>TypeError\<close> (the name is \<open>undefined\<close>, which is not writable and reads as
  \<open>undefined\<close>), and that is what the caller receives, not the configuration error.
\<close>

theorem PluginFile_invalid_key_counterexample:
  "fst (PluginFile no_register_host Undefined alien_plugin Undefined empty_world) = Inl TypeError \<and>
   fst (PluginFile no_register_host Undefined alien_plugin Undefined empty_world)
     \<noteq> Inl ConfigurationError \<and>
   fst (plugin no_register_host Undefined alien_plugin Undefined empty_world) = Some TypeError"
  by (simp add: plugin_def PluginFile_def PluginFile_config_def PluginFile_args_def Let_def
      call_register_def window_get_def window_set_def no_register_host_def alien_plugin_def
      empty_world_def)

text \<open>
  C4, amended. Let the key that reaches the base constructor (the key argument, or
  the \<open>key\<close> field of a configuration object) be missing or empty. Then construction
  fails with an exception, which the \<open>plugin\<close> method passes on to its caller, and no
  file is added to the loader. Unless the url is a function, that exception is the
  configuration error and nothing at all has changed.
\<close>

theorem PluginFile_invalid_key:
  assumes "PluginFile_args k u x = (k', u', x', ext)"
    and "falsy k'"
  shows "(\<exists>e. fst (PluginFile F k u x W) = Inl e \<and> fst (plugin F k u x W) = Some e) \<and>
         loader_list (snd (plugin F k u x W)) = loader_list W \<and>
         (is_function u' \<or>
          (PluginFile F k u x W = (Inl ConfigurationError, W) \<and>
           plugin F k u x W = (Some ConfigurationError, W)))"
proof -
  note cfg = PluginFile_config_unfold [OF assms(1), of F W]
  note plg = PluginFile_args_falsy_not_Arr [OF assms, of F W]
  show ?thesis
  proof (cases "is_function u'")
    case False
    with cfg assms(2) have "PluginFile F k u x W = (Inl ConfigurationError, W)"
      by (simp add: PluginFile_def File_falsy)
    with plg show ?thesis by simp
  next
    case True
    let ?W1 = "window_set k' u' W"
    obtain e1 W1 where reg: "call_register F (window_get ?W1 k') ?W1 = (e1, W1)"
      by (cases "call_register F (window_get ?W1 k') ?W1")
    have ll: "loader_list W1 = loader_list W"
      using call_register_fields(2) [of F "window_get ?W1 k'" ?W1] reg
      by (simp add: window_set_fields)
    show ?thesis
    proof (cases e1)
      case None
      with cfg True reg assms(2) have "PluginFile F k u x W = (Inl ConfigurationError, W1)"
        by (simp add: PluginFile_def File_falsy)
      with plg ll True show ?thesis by simp
    next
      case (Some err)
      with cfg True reg have "PluginFile F k u x W = (Inl err, W1)"
        by (simp add: PluginFile_def)
      with plg ll True show ?thesis by simp
    qed
  qed
qed

text \<open>
  The amended statement at a configuration object with an empty key and a url.
\<close>

theorem PluginFile_invalid_key_witness:
  "falsy (Str []) \<and>
   PluginFile binding_host (Obj [(''key'', Str []), (''url'', Str ''plugins/a.js'')])
      Undefined Undefined empty_world = (Inl ConfigurationError, empty_world) \<and>
   plugin binding_host (Obj [(''key'', Str []), (''url'', Str ''plugins/a.js'')])
      Undefined Undefined empty_world = (Some ConfigurationError, empty_world) \<and>
   loader_list (snd (plugin binding_host (Obj [(''key'', Str []), (''url'', Str ''plugins/a.js'')])
      Undefined Undefined empty_world)) = []"
proof -
  have a: "PluginFile_args (Obj [(''key'', Str []), (''url'', Str ''plugins/a.js'')])
      Undefined Undefined = (Str [], Str ''plugins/a.js'', Undefined, Str ''js'')"
    by (simp add: PluginFile_args_def GetFastValue_def)
  have f: "falsy (Str [])" by simp
  have l: "loader_list empty_world = []" by (simp add: empty_world_def)
  from PluginFile_invalid_key [OF a f, of binding_host empty_world] f l show ?thesis by simp
qed




text \<open>
  C6, as stated, fails: nothing in the file examines \<open>window[key]\<close> before the
  assignment of line 66. With \<open>window.alien\<close> bound to an unrelated string, construction
  with the key \<open>alien\<close> and a plugin class succeeds and the slot holds the class.
\<close>

theorem PluginFile_collision_counterexample:
  "window taken_world ''alien'' = Some (Str ''taken'') \<and>
   fst (PluginFile binding_host (Str ''alien'') alien_plugin Undefined taken_world) =
     Inr \<lparr> key = Str ''alien'', url = alien_plugin, xhrSettings = Undefined,
           state = FILE_COMPLETE, xhrLoader = None, data = None \<rparr> \<and>
   window (snd (PluginFile binding_host (Str ''alien'') alien_plugin Undefined taken_world))
     ''alien'' = Some alien_plugin"
  by (simp add: PluginFile_def PluginFile_config_def PluginFile_args_def Let_def File_def
      call_register_def window_get_def window_set_def binding_host_def alien_plugin_def
      taken_world_def empty_world_def)

text \<open>
  C6, amended. Let the url be a function and let the property of \<open>window\<close> named by
  the key be writable and already bound to some value \<open>b\<close>. Then the collision is
  neither detected nor reported: after the constructor the slot holds the function
  in place of \<open>b\<close>, and construction succeeds or fails, with the same file or the
  same error, exactly as it does when the slot is unbound.
\<close>

theorem PluginFile_overwrites_slot:
  assumes "PluginFile_args k u x = (k', u', x', ext)"
    and "is_function u'"
    and "ToString k' \<notin> read_only W"
    and "window W (ToString k') = Some b"
  shows "window (snd (PluginFile F k u x W)) (ToString k') = Some u' \<and>
         fst (PluginFile F k u x W) =
           fst (PluginFile F k u x (W\<lparr>window := (window W)(ToString k' := None)\<rparr>))"
proof -
  let ?W0 = "W\<lparr>window := (window W)(ToString k' := None)\<rparr>"
  note cfg = PluginFile_config_unfold [OF assms(1), of F W]
  have snd_eq: "snd (PluginFile F k u x W) =
      snd (call_register F (window_get (window_set k' u' W) k') (window_set k' u' W))"
    using cfg assms(2) by (simp add: snd_PluginFile split: prod.splits option.splits)
  have w: "window (snd (PluginFile F k u x W)) (ToString k') = Some u'"
    using assms(3) by (simp add: snd_eq call_register_fields window_set_def)
  have ro: "read_only W = read_only ?W0" by simp
  have fx: "\<forall>n \<in> read_only ?W0. window W n = window ?W0 n"
    using assms(3) by auto
  from w PluginFile_same_fixed [OF ro fx, of F k u x] show ?thesis by simp
qed

text \<open>
  The amended statement at \<open>window.alien\<close> bound to a string: the class replaces
  the string, and the outcome is that of the world in which nothing is bound.
\<close>

theorem PluginFile_overwrites_slot_witness:
  "is_function alien_plugin \<and>
   ToString (Str ''alien'') \<notin> read_only taken_world \<and>
   window taken_world (ToString (Str ''alien'')) = Some (Str ''taken'') \<and>
   window (snd (PluginFile binding_host (Str ''alien'') alien_plugin Undefined taken_world))
     ''alien'' = Some alien_plugin \<and>
   fst (PluginFile binding_host (Str ''alien'') alien_plugin Undefined taken_world) =
     fst (PluginFile binding_host (Str ''alien'') alien_plugin Undefined empty_world)"
proof -
  have a: "PluginFile_args (Str ''alien'') alien_plugin Undefined =
      (Str ''alien'', alien_plugin, Undefined, Str ''js'')"
    by (simp add: PluginFile_args_def)
  have c: "is_function alien_plugin" by (simp add: alien_plugin_def)
  have w: "ToString (Str ''alien'') \<notin> read_only taken_world"
    by (simp add: taken_world_def empty_world_def)
  have b: "window taken_world (ToString (Str ''alien'')) = Some (Str ''taken'')"
    by (simp add: taken_world_def)
  have t: "taken_world\<lparr>window := (window taken_world)(ToString (Str ''alien'') := None)\<rparr>
      = empty_world"
    by (simp add: taken_world_def empty_world_def)
  from PluginFile_overwrites_slot [OF a c w b, of binding_host] c w b t
  show ?thesis by simp
qed

text \<open>
  C7. Let the key be present and non-empty and let no url be given. Then
  construction succeeds, changes nothing else, and the url of the file is the key,
  a dot and the extension, where the extension is \<open>js\<close> unless the key argument is a
  configuration object with an \<open>extension\<close> field, which then replaces it.
\<close>

theorem PluginFile_default_url:
  assumes "PluginFile_args k u x = (k', u', x', ext)"
    and "u' = Undefined"
    and "\<not> falsy k'"
  shows "ext = GetFastValue k ''extension'' (Str ''js'') \<and>
         PluginFile F k u x W =
           (Inr \<lparr> key = k', url = Str (ToString k' @ ''.'' @ ToString ext), xhrSettings = x',
                  state = FILE_PENDING, xhrLoader = None, data = None \<rparr>, W)"
proof -
  from assms(1) have "ext = GetFastValue k ''extension'' (Str ''js'')"
    by (cases k) (auto simp add: PluginFile_args_def GetFastValue_def Let_def)
  moreover from assms have "PluginFile F k u x W =
      (Inr \<lparr> key = k', url = Str (ToString k' @ ''.'' @ ToString ext), xhrSettings = x',
             state = FILE_PENDING, xhrLoader = None, data = None \<rparr>, W)"
    by (simp add: PluginFile_def PluginFile_config_unfold File_def)
  ultimately show ?thesis by simp
qed

text \<open>
  The theorem at \<open>{key: 'alien'}\<close>, whose url is \<open>alien.js\<close>, and at the same object with
  the extension \<open>min.js\<close>.
\<close>

theorem PluginFile_default_url_witness:
  "\<not> falsy (Str ''alien'') \<and>
   fst (PluginFile binding_host (Obj [(''key'', Str ''alien'')]) Undefined Undefined empty_world) =
     Inr \<lparr> key = Str ''alien'', url = Str ''alien.js'', xhrSettings = Undefined,
           state = FILE_PENDING, xhrLoader = None, data = None \<rparr> \<and>
   fst (PluginFile binding_host (Obj [(''key'', Str ''alien''), (''extension'', Str ''min.js'')])
          Undefined Undefined empty_world) =
     Inr \<lparr> key = Str ''alien'', url = Str ''alien.min.js'', xhrSettings = Undefined,
           state = FILE_PENDING, xhrLoader = None, data = None \<rparr>"
proof -
  have a1: "PluginFile_args (Obj [(''key'', Str ''alien'')]) Undefined Undefined =
      (Str ''alien'', Undefined, Undefined, Str ''js'')"
    by (simp add: PluginFile_args_def GetFastValue_def)
  have a2: "PluginFile_args (Obj [(''key'', Str ''alien''), (''extension'', Str ''min.js'')])
      Undefined Undefined = (Str ''alien'', Undefined, Undefined, Str ''min.js'')"
    by (simp add: PluginFile_args_def GetFastValue_def)
  have n: "\<not> falsy (Str ''alien'')" by simp
  from PluginFile_default_url [OF a1 refl n, of binding_host empty_world]
    PluginFile_default_url [OF a2 refl n, of binding_host empty_world] n
  show ?thesis by simp
qed

subsection \<open>The batch form\<close>

text \<open>
  C8, as stated, fails: an exception of the constructor ends the loop. From an
  array of three configuration objects of which the second has an empty key, one
  file is passed to \<open>addFile\<close>, not three, and the caller receives the
  configuration error.
\<close>

theorem plugin_array_counterexample:
  "fst (plugin binding_host
          (Arr [Obj [(''key'', Str ''a'')], Obj [(''key'', Str [])], Obj [(''key'', Str ''c'')]])
          Undefined Undefined empty_world) = Some ConfigurationError \<and>
   loader_list (snd (plugin binding_host
          (Arr [Obj [(''key'', Str ''a'')], Obj [(''key'', Str [])], Obj [(''key'', Str ''c'')]])
          Undefined Undefined empty_world)) =
     [\<lparr> key = Str ''a'', url = Str ''a.js'', xhrSettings = Undefined,
        state = FILE_PENDING, xhrLoader = None, data = None \<rparr>]"
  by (simp add: plugin_def PluginFile_def PluginFile_config_def PluginFile_args_def
      GetFastValue_def Let_def File_def addFile_def empty_world_def)

text \<open>
  C8, amended. Let every element of an array be an argument from which the
  constructor, called with that element alone, builds a file. Then the \<open>plugin\<close>
  method returns without an exception and has passed to \<open>addFile\<close>, in the order of
  the array, exactly one file per element (\<open>fs\<close> has the length of the array). The
  file at each index is the one the constructor builds from that element alone,
  and it is built in the world that the elements before it have left: the world
  after the first \<open>i + 1\<close> elements is the world after the first \<open>i\<close>, changed by the
  constructor called with element \<open>i\<close> and then by \<open>addFile\<close>. The url and xhrSettings
  arguments of the method play no part.
\<close>

theorem plugin_array:
  assumes "\<forall>k \<in> set ks. \<exists>f. fst (PluginFile F k Undefined Undefined W) = Inr f"
  shows "\<exists>fs. length fs = length ks \<and>
           fst (plugin F (Arr ks) u x W) = None \<and>
           loader_list (snd (plugin F (Arr ks) u x W)) = loader_list W @ fs \<and>
           (\<forall>i < length ks.
              fst (PluginFile F (ks ! i) Undefined Undefined W) = Inr (fs ! i) \<and>
              fst (PluginFile F (ks ! i) Undefined Undefined
                     (snd (plugin F (Arr (take i ks)) u x W))) = Inr (fs ! i) \<and>
              snd (plugin F (Arr (take (Suc i) ks)) u x W) =
                addFile (fs ! i)
                  (snd (PluginFile F (ks ! i) Undefined Undefined
                          (snd (plugin F (Arr (take i ks)) u x W)))))"
proof -
  let ?g = "\<lambda>k. fst (PluginFile F k Undefined Undefined W)"
  from all_Inr_map [of ks ?g] assms obtain fs where fs: "map ?g ks = map Inr fs"
    by blast
  then have len: "length fs = length ks"
    by (metis length_map)
  have nth: "?g (ks ! i) = Inr (fs ! i)" if "i < length ks" for i
  proof -
    from that len have "map ?g ks ! i = map Inr fs ! i" using fs by simp
    with that len show ?thesis by simp
  qed
  have prefix: "\<exists>Wj. plugin_loop F (take j ks) W = (None, Wj) \<and>
      loader_list Wj = loader_list W @ take j fs \<and>
      read_only Wj = read_only W \<and> (\<forall>n \<in> read_only W. window Wj n = window W n)" for j
  proof -
    have sub: "\<forall>k \<in> set (take j ks). \<exists>f. ?g k = Inr f"
      using assms by (meson in_set_takeD)
    from plugin_loop_all [OF sub, of W] obtain gs Wj where
      r: "plugin_loop F (take j ks) W = (None, Wj)" "loader_list Wj = loader_list W @ gs"
        "map ?g (take j ks) = map Inr gs"
        "read_only Wj = read_only W" "\<forall>n \<in> read_only W. window Wj n = window W n"
      by auto
    have "map ?g (take j ks) = take j (map ?g ks)"
      by (simp add: take_map)
    with r(3) fs have "map Inr gs = map Inr (take j fs)"
      by (simp add: take_map)
    then have "gs = take j fs"
      by (metis inj_Inr inj_map_eq_map)
    with r show ?thesis by simp
  qed
  from prefix [of "length ks"] len
  have whole: "fst (plugin F (Arr ks) u x W) = None"
    "loader_list (snd (plugin F (Arr ks) u x W)) = loader_list W @ fs"
    by (auto simp add: plugin_def)
  have step: "fst (PluginFile F (ks ! i) Undefined Undefined W) = Inr (fs ! i) \<and>
      fst (PluginFile F (ks ! i) Undefined Undefined
             (snd (plugin F (Arr (take i ks)) u x W))) = Inr (fs ! i) \<and>
      snd (plugin F (Arr (take (Suc i) ks)) u x W) =
        addFile (fs ! i)
          (snd (PluginFile F (ks ! i) Undefined Undefined
                  (snd (plugin F (Arr (take i ks)) u x W))))"
    if i: "i < length ks" for i
  proof -
    from prefix [of i] obtain Wi where
      Wi: "plugin_loop F (take i ks) W = (None, Wi)"
        "read_only Wi = read_only W" "\<forall>n \<in> read_only W. window Wi n = window W n"
      by blast
    have at: "fst (PluginFile F (ks ! i) Undefined Undefined Wi) = Inr (fs ! i)"
      using PluginFile_same_fixed [OF Wi(2,3), of F "ks ! i" Undefined Undefined] nth [OF i]
      by simp
    then obtain W2 where full: "PluginFile F (ks ! i) Undefined Undefined Wi = (Inr (fs ! i), W2)"
      by (cases "PluginFile F (ks ! i) Undefined Undefined Wi") auto
    have "take (Suc i) ks = take i ks @ [ks ! i]"
      using i by (rule take_Suc_conv_app_nth)
    then have "plugin_loop F (take (Suc i) ks) W = (None, addFile (fs ! i) W2)"
      using Wi(1) full by (simp add: plugin_loop_snoc)
    with Wi(1) at nth [OF i] full show ?thesis by (simp add: plugin_def)
  qed
  from len whole step show ?thesis by blast
qed

text \<open>
  The amended statement at an array of a configuration object with a key only
  and one with a plugin class as its url, whose registration is still in the
  world after the batch.
\<close>

theorem plugin_array_witness:
  "fst (plugin binding_host
          (Arr [Obj [(''key'', Str ''a'')], Obj [(''key'', Str ''alien''), (''url'', alien_plugin)]])
          Undefined Undefined empty_world) = None \<and>
   loader_list (snd (plugin binding_host
          (Arr [Obj [(''key'', Str ''a'')], Obj [(''key'', Str ''alien''), (''url'', alien_plugin)]])
          Undefined Undefined empty_world)) =
     [\<lparr> key = Str ''a'', url = Str ''a.js'', xhrSettings = Undefined,
        state = FILE_PENDING, xhrLoader = None, data = None \<rparr>,
      \<lparr> key = Str ''alien'', url = alien_plugin, xhrSettings = Undefined,
        state = FILE_COMPLETE, xhrLoader = None, data = None \<rparr>] \<and>
   register_calls (snd (plugin binding_host
          (Arr [Obj [(''key'', Str ''a'')], Obj [(''key'', Str ''alien''), (''url'', alien_plugin)]])
          Undefined Undefined empty_world)) = [(alien_plugin, PluginManager)] \<and>
   window (snd (plugin binding_host
          (Arr [Obj [(''key'', Str ''a'')], Obj [(''key'', Str ''alien''), (''url'', alien_plugin)]])
          Undefined Undefined empty_world)) ''alien'' = Some alien_plugin"
proof -
  let ?a = "Obj [(''key'', Str ''a'')]"
  let ?b = "Obj [(''key'', Str ''alien''), (''url'', alien_plugin)]"
  let ?fa = "\<lparr> key = Str ''a'', url = Str ''a.js'', xhrSettings = Undefined,
        state = FILE_PENDING, xhrLoader = None, data = None \<rparr>"
  let ?fb = "\<lparr> key = Str ''alien'', url = alien_plugin, xhrSettings = Undefined,
        state = FILE_COMPLETE, xhrLoader = None, data = None \<rparr>"
  let ?P = "\<lambda>ks. snd (plugin binding_host (Arr ks) Undefined Undefined empty_world)"
  have fa: "fst (PluginFile binding_host ?a Undefined Undefined empty_world) = Inr ?fa"
    by (simp add: PluginFile_def PluginFile_config_def PluginFile_args_def GetFastValue_def
        Let_def File_def)
  have fb: "fst (PluginFile binding_host ?b Undefined Undefined empty_world) = Inr ?fb"
    by (simp add: PluginFile_def PluginFile_config_def PluginFile_args_def GetFastValue_def
        Let_def File_def call_register_def window_get_def window_set_def binding_host_def
        alien_plugin_def empty_world_def)
  have h: "\<forall>k \<in> set [?a, ?b].
      \<exists>f. fst (PluginFile binding_host k Undefined Undefined empty_world) = Inr f"
    using fa fb by simp
  from plugin_array [OF h, of Undefined Undefined] obtain fs where
    r: "length fs = length [?a, ?b]"
      "fst (plugin binding_host (Arr [?a, ?b]) Undefined Undefined empty_world) = None"
      "loader_list (?P [?a, ?b]) = loader_list empty_world @ fs"
      "\<forall>i < length [?a, ?b].
         fst (PluginFile binding_host ([?a, ?b] ! i) Undefined Undefined empty_world) =
           Inr (fs ! i) \<and>
         fst (PluginFile binding_host ([?a, ?b] ! i) Undefined Undefined
                (?P (take i [?a, ?b]))) = Inr (fs ! i) \<and>
         ?P (take (Suc i) [?a, ?b]) =
           addFile (fs ! i) (snd (PluginFile binding_host ([?a, ?b] ! i) Undefined Undefined
                (?P (take i [?a, ?b]))))"
    by blast
  from r(4) have i0: "fst (PluginFile binding_host ?a Undefined Undefined empty_world) = Inr (fs ! 0)"
    by auto
  from r(4) have i1: "fst (PluginFile binding_host ?b Undefined Undefined empty_world) = Inr (fs ! 1)"
    by (metis One_nat_def length_Cons lessI list.size(3) nth_Cons_0 nth_Cons_Suc)
  from r(4) have last_step: "?P [?a, ?b] =
      addFile (fs ! 1) (snd (PluginFile binding_host ?b Undefined Undefined (?P [?a])))"
    by (metis (no_types, lifting) One_nat_def Suc_1 length_Cons lessI list.size(3) nth_Cons_0
        nth_Cons_Suc take0 take_Suc_Cons)
  from r(1) i0 i1 fa fb have fs: "fs = [?fa, ?fb]"
    by (cases fs; cases "tl fs") auto
  have Pa: "?P [?a] = addFile ?fa empty_world"
    by (simp add: plugin_def PluginFile_def PluginFile_config_def PluginFile_args_def
        GetFastValue_def Let_def File_def)
  have sb: "register_calls (snd (PluginFile binding_host ?b Undefined Undefined
        (addFile ?fa empty_world))) = [(alien_plugin, PluginManager)]"
    "window (snd (PluginFile binding_host ?b Undefined Undefined
        (addFile ?fa empty_world))) ''alien'' = Some alien_plugin"
    by (simp_all add: PluginFile_def PluginFile_config_def PluginFile_args_def GetFastValue_def
        Let_def File_def call_register_def window_get_def window_set_def binding_host_def
        alien_plugin_def empty_world_def addFile_def)
  have l: "loader_list empty_world = []" by (simp add: empty_world_def)
  from r(2,3) fs l last_step Pa sb show ?thesis
    by (simp add: addFile_def)
qed

subsection \<open>The file configuration\<close>

text \<open>
  C9. Whenever the constructor reaches the base constructor, from positional
  arguments, from a configuration object or after registering a callable url, the
  file configuration it passes has type \<open>script\<close>, cache false and response type
  \<open>text\<close>, and the result of the constructor is what the base constructor makes of
  that configuration.
\<close>

theorem PluginFile_config_constants:
  assumes "PluginFile_config F k u x W = (Inr cfg, W')"
  shows "fc_type cfg = ''script'' \<and> fc_cache cfg = False \<and> fc_responseType cfg = ''text'' \<and>
         PluginFile F k u x W = (File cfg, W')"
proof -
  obtain k' u' x' ext where a: "PluginFile_args k u x = (k', u', x', ext)"
    by (cases "PluginFile_args k u x")
  from assms have "fc_type cfg = ''script'' \<and> fc_cache cfg = False \<and>
      fc_responseType cfg = ''text''"
    by (auto simp add: PluginFile_config_unfold [OF a] split: if_splits prod.splits option.splits)
  with assms show ?thesis by (simp add: PluginFile_def)
qed

text \<open>
  The theorem at a configuration object whose url is a plugin class.
\<close>

theorem PluginFile_config_constants_witness:
  "fst (PluginFile_config binding_host (Obj [(''key'', Str ''alien''), (''url'', alien_plugin)])
          Undefined Undefined empty_world) =
     Inr \<lparr> fc_type = ''script'', fc_cache = False, fc_extension = Str ''js'',
           fc_responseType = ''text'', fc_key = Str ''alien'', fc_url = alien_plugin,
           fc_xhrSettings = Undefined \<rparr> \<and>
   fst (PluginFile binding_host (Obj [(''key'', Str ''alien''), (''url'', alien_plugin)])
          Undefined Undefined empty_world) =
     File \<lparr> fc_type = ''script'', fc_cache = False, fc_extension = Str ''js'',
            fc_responseType = ''text'', fc_key = Str ''alien'', fc_url = alien_plugin,
            fc_xhrSettings = Undefined \<rparr>"
proof -
  let ?k = "Obj [(''key'', Str ''alien''), (''url'', alien_plugin)]"
  let ?cfg = "\<lparr> fc_type = ''script'', fc_cache = False, fc_extension = Str ''js'',
           fc_responseType = ''text'', fc_key = Str ''alien'', fc_url = alien_plugin,
           fc_xhrSettings = Undefined \<rparr>"
  have r: "fst (PluginFile_config binding_host ?k Undefined Undefined empty_world) = Inr ?cfg"
    by (simp add: PluginFile_config_def PluginFile_args_def GetFastValue_def Let_def
        call_register_def window_get_def window_set_def binding_host_def alien_plugin_def
        empty_world_def)
  then have h: "PluginFile_config binding_host ?k Undefined Undefined empty_world =
      (Inr ?cfg, snd (PluginFile_config binding_host ?k Undefined Undefined empty_world))"
    by (metis prod.collapse)
  from PluginFile_config_constants [OF h] r show ?thesis by simp
qed

text \<open>
  C10. Whenever the constructor reaches the base constructor, the extension in
  the file configuration is \<open>js\<close> if the key argument is not a plain object, whatever
  the other arguments are; if it is a plain object, the extension is its
  \<open>extension\<close> field, or \<open>js\<close> where it has none.
\<close>

theorem PluginFile_extension:
  assumes "PluginFile_config F k u x W = (Inr cfg, W')"
  shows "(\<not> IsPlainObject k \<longrightarrow> fc_extension cfg = Str ''js'') \<and>
         (IsPlainObject k \<longrightarrow> fc_extension cfg = GetFastValue k ''extension'' (Str ''js''))"
proof -
  obtain k' u' x' ext where a: "PluginFile_args k u x = (k', u', x', ext)"
    by (cases "PluginFile_args k u x")
  from assms have e: "fc_extension cfg = ext"
    by (auto simp add: PluginFile_config_unfold [OF a] split: if_splits prod.splits option.splits)
  from a have "ext = (if IsPlainObject k then GetFastValue k ''extension'' (Str ''js'')
      else Str ''js'')"
    by (auto simp add: PluginFile_args_def Let_def split: if_splits)
  with e show ?thesis by simp
qed

text \<open>
  The theorem at a key given as a string and at an object with an extension.
\<close>

theorem PluginFile_extension_witness:
  "\<not> IsPlainObject (Str ''alien'') \<and>
   fst (PluginFile_config binding_host (Str ''alien'') Undefined Undefined empty_world) =
     Inr \<lparr> fc_type = ''script'', fc_cache = False, fc_extension = Str ''js'',
           fc_responseType = ''text'', fc_key = Str ''alien'', fc_url = Undefined,
           fc_xhrSettings = Undefined \<rparr> \<and>
   IsPlainObject (Obj [(''key'', Str ''alien''), (''extension'', Str ''min.js'')]) \<and>
   fst (PluginFile_config binding_host
          (Obj [(''key'', Str ''alien''), (''extension'', Str ''min.js'')])
          Undefined Undefined empty_world) =
     Inr \<lparr> fc_type = ''script'', fc_cache = False, fc_extension = Str ''min.js'',
           fc_responseType = ''text'', fc_key = Str ''alien'', fc_url = Undefined,
           fc_xhrSettings = Undefined \<rparr>"
proof -
  let ?o = "Obj [(''key'', Str ''alien''), (''extension'', Str ''min.js'')]"
  let ?c1 = "\<lparr> fc_type = ''script'', fc_cache = False, fc_extension = Str ''js'',
           fc_responseType = ''text'', fc_key = Str ''alien'', fc_url = Undefined,
           fc_xhrSettings = Undefined \<rparr>"
  let ?c2 = "\<lparr> fc_type = ''script'', fc_cache = False, fc_extension = Str ''min.js'',
           fc_responseType = ''text'', fc_key = Str ''alien'', fc_url = Undefined,
           fc_xhrSettings = Undefined \<rparr>"
  have r1: "fst (PluginFile_config binding_host (Str ''alien'') Undefined Undefined empty_world)
      = Inr ?c1"
    by (simp add: PluginFile_config_def PluginFile_args_def Let_def)
  then have h1: "PluginFile_config binding_host (Str ''alien'') Undefined Undefined empty_world =
      (Inr ?c1, snd (PluginFile_config binding_host (Str ''alien'') Undefined Undefined
         empty_world))"
    by (metis prod.collapse)
  have r2: "fst (PluginFile_config binding_host ?o Undefined Undefined empty_world) = Inr ?c2"
    by (simp add: PluginFile_config_def PluginFile_args_def GetFastValue_def Let_def)
  then have h2: "PluginFile_config binding_host ?o Undefined Undefined empty_world =
      (Inr ?c2, snd (PluginFile_config binding_host ?o Undefined Undefined empty_world))"
    by (metis prod.collapse)
  from PluginFile_extension [OF h1] PluginFile_extension [OF h2] r1 r2
  show ?thesis by simp
qed

end
